theory Spec2Isabelle
  imports Main "HOL-Library.Word"
begin

unbundle bit_operations_syntax

section \<open>The mutex of src/stl/src/mutex.cpp\<close>

text \<open>
  The file implements the C interface of the mutex (\<^verbatim>\<open>_Mtx_init\<close>, \<^verbatim>\<open>_Mtx_lock\<close>,
  \<^verbatim>\<open>_Mtx_trylock\<close>, \<^verbatim>\<open>_Mtx_timedlock\<close>, \<^verbatim>\<open>_Mtx_unlock\<close>, ...) over the structure
  \<^verbatim>\<open>_Mtx_internal_imp_t\<close>. The target is Windows: \<^verbatim>\<open>int\<close> and \<^verbatim>\<open>long\<close> are 32 bits wide,
  \<^verbatim>\<open>__time64_t\<close> is 64 bits wide. The fields are words; \<^verbatim>\<open>++\<close> and \<^verbatim>\<open>--\<close> are word addition
  and subtraction (two's complement wrap-around, which is what the compiled code does; in C++ the
  signed overflow itself has no defined behaviour), and the comparisons of the source, all on
  signed types, are the signed comparisons \<open><s\<close> and \<open><=s\<close>.

  One call of the interface is modelled as one step of the calling thread on the state of the
  mutex: no other thread runs during the call.
\<close>

subsection \<open>Constants of the headers\<close>

text \<open>
  Modelled from the spec: the mode flags of \<^verbatim>\<open>xthreads.h\<close> are not under src/. The spec has a
  mode made of plain or recursive, with try and timed support as independent toggles that
  compose; the flags are four different single bits, with the values of the header. The
  properties below use that they are different bits, not which bits they are.
\<close>

definition Mtx_plain :: "32 word" where
  "Mtx_plain = 0x01"

definition Mtx_try :: "32 word" where
  "Mtx_try = 0x02"

definition Mtx_timed :: "32 word" where
  "Mtx_timed = 0x04"

definition Mtx_recursive :: "32 word" where
  "Mtx_recursive = 0x100"

text \<open>
  The result codes \<^verbatim>\<open>_Thrd_success\<close>, \<^verbatim>\<open>_Thrd_nomem\<close>, \<^verbatim>\<open>_Thrd_timedout\<close>, \<^verbatim>\<open>_Thrd_busy\<close>,
  \<^verbatim>\<open>_Thrd_error\<close>: an enumeration (Success, AllocationFailure, TimedOut, Busy, Error in the
  words of the spec).
\<close>

datatype thrd_result = Thrd_success | Thrd_nomem | Thrd_timedout | Thrd_busy | Thrd_error

text \<open>
  Modelled from the spec: the wait codes of the Windows headers are not under src/; they are
  three different values of an \<^verbatim>\<open>int\<close>.
\<close>

definition WAIT_OBJECT_0 :: "32 word" where
  "WAIT_OBJECT_0 = 0"

definition WAIT_ABANDONED :: "32 word" where
  "WAIT_ABANDONED = 0x80"

definition WAIT_TIMEOUT :: "32 word" where
  "WAIT_TIMEOUT = 0x102"

subsection \<open>The critical section\<close>

text \<open>
  A thread is named by \<^verbatim>\<open>static_cast<long>(GetCurrentThreadId())\<close>, a 32-bit value.
\<close>

type_synonym thread = "32 word"

datatype cs_call = Cs_lock | Cs_try_lock bool | Cs_unlock

text \<open>
  Modelled from the spec: \<^verbatim>\<open>stl_critical_section_win7\<close> of \<^verbatim>\<open>primitives.hpp\<close> is not under
  src/. In the spec it is an opaque mutual-exclusion primitive with at most one holder at a time,
  a blocking \<open>lock\<close>, a non-blocking \<open>try_lock\<close> that says whether it acquired, and \<open>unlock\<close>.
  The model keeps the holder and, in \<open>calls\<close>, every call made on the critical section, in
  order, so that a critical section that is equal before and after an operation of the mutex has
  not been operated on.
\<close>

record stl_critical_section =
  holder :: "thread option"
  calls :: "cs_call list"

definition create_stl_critical_section :: "stl_critical_section" where
  "create_stl_critical_section = \<lparr>holder = None, calls = []\<rparr>"

text \<open>\<open>None\<close>: the critical section is held, the caller waits.\<close>

definition cs_lock :: "thread \<Rightarrow> stl_critical_section \<Rightarrow> stl_critical_section option" where
  "cs_lock cur c =
     (if holder c = None then Some \<lparr>holder = Some cur, calls = calls c @ [Cs_lock]\<rparr>
      else None)"

definition cs_try_lock :: "thread \<Rightarrow> stl_critical_section \<Rightarrow> bool \<times> stl_critical_section" where
  "cs_try_lock cur c =
     (if holder c = None then (True, \<lparr>holder = Some cur, calls = calls c @ [Cs_try_lock True]\<rparr>)
      else (False, c\<lparr>calls := calls c @ [Cs_try_lock False]\<rparr>))"

definition cs_unlock :: "stl_critical_section \<Rightarrow> stl_critical_section" where
  "cs_unlock c = \<lparr>holder = None, calls = calls c @ [Cs_unlock]\<rparr>"

subsection \<open>The mutex\<close>

text \<open>\<^verbatim>\<open>struct _Mtx_internal_imp_t\<close>, in the order of its fields.\<close>

record mtx_imp =
  type :: "32 word"
  cs :: stl_critical_section
  thread_id :: "32 word"
  count :: "32 word"

text \<open>\<^verbatim>\<open>_timespec64\<close>: a point in time, or a null pointer where the argument is \<open>None\<close>.\<close>

record timespec64 =
  tv_sec :: "64 word"
  tv_nsec :: "32 word"

text \<open>
  How a call ends: it returns; or \<^verbatim>\<open>_Thrd_abort\<close> writes the message of a failed
  \<^verbatim>\<open>_THREAD_ASSERT\<close> to the standard error stream and aborts the process (the model keeps the
  message of the assertion, not the file and line the macro puts before it); or the thread waits
  in \<open>lock\<close> of the critical section; or the call has no defined behaviour (a handle that
  points to no live block).
\<close>

datatype 'a outcome = Returned 'a | Aborted string | Blocked | Undefined

text \<open>
  \<^verbatim>\<open>_THREAD_ASSERT(expr, msg)\<close>. The argument \<open>chk\<close> is \<^verbatim>\<open>_THREAD_CHECKX\<close>: true when the
  file is compiled with \<^verbatim>\<open>_THREAD_CHECK\<close> or \<^verbatim>\<open>_DEBUG\<close>, false otherwise, and then the macro
  is \<^verbatim>\<open>((void) 0)\<close>. The result is the message when the assertion aborts.
\<close>

definition THREAD_ASSERT :: "bool \<Rightarrow> bool \<Rightarrow> string \<Rightarrow> string option" where
  "THREAD_ASSERT chk expr msg = (if chk then (if expr then None else Some msg) else None)"

subsection \<open>Initialisation and destruction\<close>

definition Mtx_init_in_situ :: "mtx_imp \<Rightarrow> 32 word \<Rightarrow> mtx_imp" where
  "Mtx_init_in_situ mtx ty =
     mtx\<lparr>cs := create_stl_critical_section, thread_id := - 1, type := ty, count := 0\<rparr>"

definition Mtx_destroy_in_situ :: "bool \<Rightarrow> mtx_imp \<Rightarrow> unit outcome" where
  "Mtx_destroy_in_situ chk mtx =
     (case THREAD_ASSERT chk (count mtx = 0) ''mutex destroyed while busy'' of
        Some msg \<Rightarrow> Aborted msg
      | None \<Rightarrow> Returned ())"

text \<open>
  The blocks of \<^verbatim>\<open>_calloc_crt\<close>: a store from addresses to mutexes. A handle \<^verbatim>\<open>_Mtx_t\<close> is an
  address, or \<open>None\<close> for the null pointer.
\<close>

type_synonym addr = nat
type_synonym heap = "addr \<rightharpoonup> mtx_imp"

text \<open>The block \<^verbatim>\<open>_calloc_crt\<close> returns is filled with zeros.\<close>

definition zeroed :: "mtx_imp" where
  "zeroed = \<lparr>type = 0, cs = \<lparr>holder = None, calls = []\<rparr>, thread_id = 0, count = 0\<rparr>"

text \<open>
  \<^verbatim>\<open>_Mtx_init\<close>. The argument \<open>alloc\<close> is what \<^verbatim>\<open>_calloc_crt\<close> returns in this call: \<open>None\<close>
  for the null pointer, or the address of the new block. The result is the returned code, the
  handle stored in \<^verbatim>\<open>*mtx\<close>, and the store.
\<close>

definition Mtx_init :: "addr option \<Rightarrow> heap \<Rightarrow> 32 word \<Rightarrow> thrd_result \<times> addr option \<times> heap" where
  "Mtx_init alloc h ty =
     (case alloc of
        None \<Rightarrow> (Thrd_nomem, None, h)
      | Some a \<Rightarrow> (Thrd_success, Some a, h(a \<mapsto> Mtx_init_in_situ zeroed ty)))"

text \<open>\<^verbatim>\<open>_Mtx_destroy\<close>; \<^verbatim>\<open>_free_crt\<close> takes the block out of the store.\<close>

definition Mtx_destroy :: "bool \<Rightarrow> heap \<Rightarrow> addr option \<Rightarrow> heap outcome" where
  "Mtx_destroy chk h mtx =
     (case mtx of
        None \<Rightarrow> Returned h
      | Some a \<Rightarrow>
          (case h a of
             None \<Rightarrow> Undefined
           | Some m \<Rightarrow>
               map_outcome (\<lambda>u. h(a := None)) (Mtx_destroy_in_situ chk m)))"

subsection \<open>Locking\<close>

text \<open>The two comparisons of points in time in \<^verbatim>\<open>mtx_do_lock\<close>.\<close>

definition target_passed :: "timespec64 \<Rightarrow> bool" where
  "target_passed target \<longleftrightarrow>
     tv_sec target <s 0 \<or> tv_sec target = 0 \<and> tv_nsec target <=s 0"

definition not_expired :: "timespec64 \<Rightarrow> timespec64 \<Rightarrow> bool" where
  "not_expired now target \<longleftrightarrow>
     tv_sec now <s tv_sec target \<or> tv_sec now = tv_sec target \<and> tv_nsec now <s tv_nsec target"

text \<open>
  The loop of the timed wait. \<open>clock\<close> gives the successive values of
  \<^verbatim>\<open>_Timespec64_get_sys\<close> in this call, \<open>i\<close> counts the readings done before the test of the loop.
  The loop ends when the clock reaches the target or the wait stops; \<open>None\<close> is a loop that never
  ends.
\<close>

partial_function (option) timed_wait ::
  "thread \<Rightarrow> (nat \<Rightarrow> timespec64) \<Rightarrow> timespec64 \<Rightarrow> nat \<Rightarrow> 32 word \<Rightarrow> mtx_imp \<Rightarrow> (32 word \<times> mtx_imp) option"
where
  "timed_wait cur clock target i res mtx =
     (if not_expired (clock i) target then
        (if thread_id mtx = cur then Some (WAIT_OBJECT_0, mtx)
         else
           (case cs_try_lock cur (cs mtx) of
              (locked, c) \<Rightarrow>
                if locked then Some (WAIT_OBJECT_0, mtx\<lparr>cs := c\<rparr>)
                else timed_wait cur clock target (Suc i) WAIT_TIMEOUT (mtx\<lparr>cs := c\<rparr>)))
      else Some (res, mtx))"

declare timed_wait.simps [code]

text \<open>
  The first part of the general path (lines 103 to 138): the wait, by the kind of target. The
  result is \<open>res\<close> and the mutex, \<open>Blocked\<close> when the thread waits in \<open>lock\<close>.
\<close>

definition wait_phase ::
  "thread \<Rightarrow> (nat \<Rightarrow> timespec64) \<Rightarrow> mtx_imp \<Rightarrow> timespec64 option \<Rightarrow> (32 word \<times> mtx_imp) outcome option"
where
  "wait_phase cur clock mtx target =
     (case target of
        None \<Rightarrow>
          (if thread_id mtx \<noteq> cur then
             (case cs_lock cur (cs mtx) of
                None \<Rightarrow> Some Blocked
              | Some c \<Rightarrow> Some (Returned (WAIT_OBJECT_0, mtx\<lparr>cs := c\<rparr>)))
           else Some (Returned (WAIT_OBJECT_0, mtx)))
      | Some t \<Rightarrow>
          (if target_passed t then
             (if thread_id mtx \<noteq> cur then
                (case cs_try_lock cur (cs mtx) of
                   (locked, c) \<Rightarrow>
                     if locked then Some (Returned (WAIT_OBJECT_0, mtx\<lparr>cs := c\<rparr>))
                     else Some (Returned (WAIT_TIMEOUT, mtx\<lparr>cs := c\<rparr>)))
              else Some (Returned (WAIT_OBJECT_0, mtx)))
           else map_option Returned (timed_wait cur clock t 0 WAIT_TIMEOUT mtx)))"

text \<open>The second part (lines 140 to 149): the count after a wait that acquired.\<close>

definition check_count :: "thread \<Rightarrow> 32 word \<Rightarrow> mtx_imp \<Rightarrow> 32 word \<times> mtx_imp" where
  "check_count cur res mtx =
     (if res = WAIT_OBJECT_0 \<or> res = WAIT_ABANDONED then
        (let mtx1 = mtx\<lparr>count := count mtx + 1\<rparr> in
         if 1 <s count mtx1 then
           (if type mtx1 AND Mtx_recursive \<noteq> Mtx_recursive then
              (WAIT_TIMEOUT, mtx1\<lparr>count := count mtx1 - 1\<rparr>)
            else (res, mtx1))
         else (res, mtx1\<lparr>thread_id := cur\<rparr>))
      else (res, mtx))"

text \<open>The third part (lines 151 to 165): the returned code.\<close>

definition result_of :: "timespec64 option \<Rightarrow> 32 word \<Rightarrow> thrd_result" where
  "result_of target res =
     (if res = WAIT_OBJECT_0 \<or> res = WAIT_ABANDONED then Thrd_success
      else if res = WAIT_TIMEOUT then
        (case target of
           None \<Rightarrow> Thrd_busy
         | Some t \<Rightarrow> if tv_sec t = 0 \<and> tv_nsec t = 0 then Thrd_busy else Thrd_timedout)
      else Thrd_error)"

text \<open>
  \<^verbatim>\<open>mtx_do_lock\<close>. The outer \<open>None\<close> is a timed wait that never ends; a call that waits in
  \<open>lock\<close>, or aborts, stays as it is under \<open>map_outcome\<close>.
\<close>

definition mtx_do_lock ::
  "thread \<Rightarrow> (nat \<Rightarrow> timespec64) \<Rightarrow> mtx_imp \<Rightarrow> timespec64 option \<Rightarrow> (thrd_result \<times> mtx_imp) outcome option"
where
  "mtx_do_lock cur clock mtx target =
     (if type mtx AND NOT Mtx_recursive = Mtx_plain then
        (if thread_id mtx \<noteq> cur then
           (case cs_lock cur (cs mtx) of
              None \<Rightarrow> Some Blocked
            | Some c \<Rightarrow>
                Some (Returned (Thrd_success, mtx\<lparr>cs := c, thread_id := cur, count := count mtx + 1\<rparr>)))
         else Some (Returned (Thrd_success, mtx\<lparr>count := count mtx + 1\<rparr>)))
      else
        map_option
          (map_outcome
             (\<lambda>(res, mtx1).
                case check_count cur res mtx1 of (res2, mtx2) \<Rightarrow> (result_of target res2, mtx2)))
          (wait_phase cur clock mtx target))"

subsection \<open>The interface\<close>

definition Mtx_unlock :: "bool \<Rightarrow> thread \<Rightarrow> mtx_imp \<Rightarrow> (thrd_result \<times> mtx_imp) outcome" where
  "Mtx_unlock chk cur mtx =
     (case THREAD_ASSERT chk (1 <=s count mtx \<and> thread_id mtx = cur) ''unlock of unowned mutex'' of
        Some msg \<Rightarrow> Aborted msg
      | None \<Rightarrow>
          (let mtx1 = mtx\<lparr>count := count mtx - 1\<rparr> in
           if count mtx1 = 0 then
             Returned (Thrd_success, mtx1\<lparr>thread_id := - 1, cs := cs_unlock (cs mtx1)\<rparr>)
           else Returned (Thrd_success, mtx1)))"

definition Mtx_lock ::
  "thread \<Rightarrow> (nat \<Rightarrow> timespec64) \<Rightarrow> mtx_imp \<Rightarrow> (thrd_result \<times> mtx_imp) outcome option"
where
  "Mtx_lock cur clock mtx = mtx_do_lock cur clock mtx None"

definition Mtx_trylock ::
  "bool \<Rightarrow> thread \<Rightarrow> (nat \<Rightarrow> timespec64) \<Rightarrow> mtx_imp \<Rightarrow> (thrd_result \<times> mtx_imp) outcome option"
where
  "Mtx_trylock chk cur clock mtx =
     (case THREAD_ASSERT chk (type mtx AND (Mtx_try OR Mtx_timed) \<noteq> 0)
             ''trylock not supported by mutex'' of
        Some msg \<Rightarrow> Some (Aborted msg)
      | None \<Rightarrow> mtx_do_lock cur clock mtx (Some \<lparr>tv_sec = 0, tv_nsec = 0\<rparr>))"

definition Mtx_timedlock ::
  "bool \<Rightarrow> thread \<Rightarrow> (nat \<Rightarrow> timespec64) \<Rightarrow> mtx_imp \<Rightarrow> timespec64 option
     \<Rightarrow> (thrd_result \<times> mtx_imp) outcome option"
where
  "Mtx_timedlock chk cur clock mtx xt =
     (case THREAD_ASSERT chk (type mtx AND Mtx_timed \<noteq> 0) ''timedlock not supported by mutex'' of
        Some msg \<Rightarrow> Some (Aborted msg)
      | None \<Rightarrow>
          map_option
            (map_outcome (\<lambda>(res, mtx1). (if res = Thrd_busy then Thrd_timedout else res, mtx1)))
            (mtx_do_lock cur clock mtx xt))"

text \<open>\<^verbatim>\<open>_Mtx_current_owns\<close> returns the truth value as an \<^verbatim>\<open>int\<close>, 1 or 0.\<close>

definition Mtx_current_owns :: "thread \<Rightarrow> mtx_imp \<Rightarrow> 32 word" where
  "Mtx_current_owns cur mtx = of_bool (count mtx \<noteq> 0 \<and> thread_id mtx = cur)"

definition Mtx_clear_owner :: "mtx_imp \<Rightarrow> mtx_imp" where
  "Mtx_clear_owner mtx = (mtx\<lparr>thread_id := - 1\<rparr>)\<lparr>count := count mtx - 1\<rparr>"

definition Mtx_reset_owner :: "thread \<Rightarrow> mtx_imp \<Rightarrow> mtx_imp" where
  "Mtx_reset_owner cur mtx = (mtx\<lparr>thread_id := cur\<rparr>)\<lparr>count := count mtx + 1\<rparr>"

subsection \<open>A clock for the examples\<close>

text \<open>
  The examples need the readings of the system clock: \<open>ticking s\<close> reads \<open>s\<close> seconds at the
  first reading and one second more at each later one.
\<close>

definition ticking :: "64 word \<Rightarrow> nat \<Rightarrow> timespec64" where
  "ticking s i = \<lparr>tv_sec = s + of_nat i, tv_nsec = 0\<rparr>"

section \<open>Properties\<close>

subsection \<open>Constants, signed arithmetic, outcomes\<close>

lemmas header_defs =
  Mtx_plain_def Mtx_try_def Mtx_timed_def Mtx_recursive_def
  WAIT_OBJECT_0_def WAIT_ABANDONED_def WAIT_TIMEOUT_def

lemmas lock_defs =
  Mtx_lock_def Mtx_trylock_def Mtx_timedlock_def THREAD_ASSERT_def mtx_do_lock_def wait_phase_def
  check_count_def result_of_def target_passed_def not_expired_def cs_lock_def cs_try_lock_def
  ticking_def Let_def word_sless_alt word_sle_eq

lemma sint_inc: "(c::32 word) <s 0x7FFFFFFF \<Longrightarrow> sint (c + 1) = sint c + 1"
proof -
  assume "c <s 0x7FFFFFFF"
  then have "sint c < 2147483647" by (simp add: word_sless_alt)
  moreover have "- (2 ^ 31) \<le> sint c" using sint_ge [of c] by simp
  ultimately show ?thesis
    by (simp add: sint_word_ariths signed_take_bit_int_eq_self)
qed

lemma sless_inc: "1 <=s (c::32 word) \<Longrightarrow> c <s 0x7FFFFFFF \<Longrightarrow> 1 <s c + 1"
  using sint_inc [of c] by (simp add: word_sless_alt word_sle_eq)

lemma sint_dec: "1 <=s (c::32 word) \<Longrightarrow> sint (c - 1) = sint c - 1"
proof -
  assume "1 <=s c"
  then have "1 \<le> sint c" by (simp add: word_sle_eq)
  moreover have "sint c < 2 ^ 31" using sint_lt [of c] by simp
  ultimately show ?thesis
    by (simp add: sint_word_ariths signed_take_bit_int_eq_self)
qed

lemma sle_one_nonzero: "1 <=s (c::32 word) \<Longrightarrow> c \<noteq> 0"
  by (auto simp: word_sle_eq)

lemma map_outcome_eq_Returned:
  "map_outcome f x = Returned y \<longleftrightarrow> (\<exists>a. x = Returned a \<and> f a = y)"
  by (cases x) auto

text \<open>
  A mode with the try or the timed flag, the modes \<^verbatim>\<open>_Mtx_trylock\<close> and \<^verbatim>\<open>_Mtx_timedlock\<close>
  assert, is never on the fast path.
\<close>

lemma try_timed_flag_general:
  assumes "ty AND (Mtx_try OR Mtx_timed) \<noteq> 0"
  shows "ty AND NOT Mtx_recursive \<noteq> Mtx_plain"
proof
  assume a: "ty AND NOT Mtx_recursive = Mtx_plain"
  have "ty AND (Mtx_try OR Mtx_timed) = (ty AND NOT Mtx_recursive) AND (Mtx_try OR Mtx_timed)"
    by (simp add: header_defs word_bw_assocs)
  also have "\<dots> = 0"
    by (simp add: a) (simp add: header_defs)
  finally show False using assms by simp
qed

lemma timed_flag_general:
  assumes "ty AND Mtx_timed \<noteq> 0"
  shows "ty AND NOT Mtx_recursive \<noteq> Mtx_plain"
proof
  assume a: "ty AND NOT Mtx_recursive = Mtx_plain"
  have "ty AND Mtx_timed = (ty AND NOT Mtx_recursive) AND Mtx_timed"
    by (simp add: header_defs word_bw_assocs)
  also have "\<dots> = 0"
    by (simp add: a) (simp add: header_defs)
  finally show False using assms by simp
qed

subsection \<open>The timed wait\<close>

text \<open>The loop ends as soon as one reading of the clock is not before the target.\<close>

lemma timed_wait_returns:
  assumes "\<not> not_expired (clock (i + k)) target"
  shows "\<exists>y. timed_wait cur clock target i res m = Some y"
  using assms
proof (induction k arbitrary: i res m)
  case 0
  then show ?case by (subst timed_wait.simps) simp
next
  case (Suc k)
  then have "\<not> not_expired (clock (Suc i + k)) target" by simp
  from Suc.IH [OF this]
  have "\<exists>y. timed_wait cur clock target (Suc i) WAIT_TIMEOUT
               (m\<lparr>cs := snd (cs_try_lock cur (cs m))\<rparr>) = Some y" .
  then show ?case
    by (subst timed_wait.simps) (simp add: split_def)
qed

text \<open>The loop changes the critical section only: by induction on the iteration of the loop.\<close>

lemma timed_wait_fields:
  assumes "timed_wait cur clock target i res m = Some y"
  shows "count (snd y) = count m \<and> thread_id (snd y) = thread_id m \<and> type (snd y) = type m"
proof (rule timed_wait.raw_induct
    [where P = "\<lambda>cur clock target i res m y.
       count (snd y) = count m \<and> thread_id (snd y) = thread_id m \<and> type (snd y) = type m",
     OF _ assms])
  fix tw :: "thread \<Rightarrow> (nat \<Rightarrow> timespec64) \<Rightarrow> timespec64 \<Rightarrow> nat \<Rightarrow> 32 word \<Rightarrow> mtx_imp
      \<Rightarrow> (32 word \<times> mtx_imp) option"
  fix cur clock target i res mtx y
  assume IH: "\<And>cur clock target i res mtx y. tw cur clock target i res mtx = Some y \<Longrightarrow>
      count (snd y) = count mtx \<and> thread_id (snd y) = thread_id mtx \<and> type (snd y) = type mtx"
  assume step: "(if not_expired (clock i) target
      then if thread_id mtx = cur then Some (WAIT_OBJECT_0, mtx)
           else case cs_try_lock cur (cs mtx) of
                (locked, c) \<Rightarrow>
                  if locked then Some (WAIT_OBJECT_0, mtx\<lparr>cs := c\<rparr>)
                  else tw cur clock target (Suc i) WAIT_TIMEOUT (mtx\<lparr>cs := c\<rparr>)
      else Some (res, mtx)) = Some y"
  show "count (snd y) = count mtx \<and> thread_id (snd y) = thread_id mtx \<and> type (snd y) = type mtx"
  proof (cases "not_expired (clock i) target \<and> thread_id mtx \<noteq> cur
                  \<and> \<not> fst (cs_try_lock cur (cs mtx))")
    case True
    with step
    have "tw cur clock target (Suc i) WAIT_TIMEOUT
            (mtx\<lparr>cs := snd (cs_try_lock cur (cs mtx))\<rparr>) = Some y"
      by (simp split: prod.splits)
    from IH [OF this] show ?thesis by simp
  next
    case False
    with step show ?thesis
      by (auto split: if_splits prod.splits)
  qed
qed

subsection \<open>The parts of the general path\<close>

lemma cs_try_lock_held:
  "holder c \<noteq> None \<Longrightarrow> cs_try_lock cur c = (False, c\<lparr>calls := calls c @ [Cs_try_lock False]\<rparr>)"
  by (simp add: cs_try_lock_def)

lemma check_count_collision:
  assumes "type m AND Mtx_recursive \<noteq> Mtx_recursive" and "1 <s count m + 1"
  shows "check_count cur WAIT_OBJECT_0 m = (WAIT_TIMEOUT, m)"
  using assms by (simp add: check_count_def Let_def)

lemma check_count_timeout: "check_count cur WAIT_TIMEOUT m = (WAIT_TIMEOUT, m)"
  by (simp add: check_count_def header_defs)

lemma check_count_depth:
  assumes "type m AND Mtx_recursive \<noteq> Mtx_recursive" and "count m = 0 \<or> count m = 1"
  shows "(count (snd (check_count cur res m)) = 0 \<or> count (snd (check_count cur res m)) = 1)
       \<and> type (snd (check_count cur res m)) = type m"
  using assms by (auto simp: check_count_def Let_def word_sless_alt)

lemma result_of_timeout:
  "result_of target WAIT_TIMEOUT =
     (case target of None \<Rightarrow> Thrd_busy
      | Some t \<Rightarrow> if tv_sec t = 0 \<and> tv_nsec t = 0 then Thrd_busy else Thrd_timedout)"
  by (simp add: result_of_def header_defs)

lemma result_of_not_zero:
  "\<not> target_passed t \<Longrightarrow> result_of (Some t) WAIT_TIMEOUT = Thrd_timedout"
  by (auto simp: result_of_timeout target_passed_def word_sle_eq)

text \<open>The owner never touches the critical section in the wait.\<close>

lemma wait_phase_owner:
  assumes "thread_id m = cur"
  shows "wait_phase cur clock m target = Some (Returned (WAIT_OBJECT_0, m))
       \<or> wait_phase cur clock m target = Some (Returned (WAIT_TIMEOUT, m))
          \<and> (\<exists>t. target = Some t \<and> \<not> target_passed t)"
proof (cases target)
  case None
  with assms show ?thesis by (simp add: wait_phase_def)
next
  case (Some t)
  show ?thesis
  proof (cases "target_passed t")
    case True
    with Some assms show ?thesis by (simp add: wait_phase_def)
  next
    case False
    have "timed_wait cur clock t 0 WAIT_TIMEOUT m =
            Some (if not_expired (clock 0) t then WAIT_OBJECT_0 else WAIT_TIMEOUT, m)"
      using assms by (subst timed_wait.simps) simp
    with Some False show ?thesis by (simp add: wait_phase_def)
  qed
qed

lemma wait_phase_passed_held:
  assumes "thread_id m \<noteq> cur" and "holder (cs m) \<noteq> None" and "target_passed t"
  shows "wait_phase cur clock m (Some t) =
           Some (Returned (WAIT_TIMEOUT,
             m\<lparr>cs := (cs m)\<lparr>calls := calls (cs m) @ [Cs_try_lock False]\<rparr>\<rparr>))"
  using assms by (simp add: wait_phase_def cs_try_lock_held)

lemma wait_phase_expired:
  assumes "\<not> target_passed t" and "\<not> not_expired (clock 0) t"
  shows "wait_phase cur clock m (Some t) = Some (Returned (WAIT_TIMEOUT, m))"
proof -
  have "timed_wait cur clock t 0 WAIT_TIMEOUT m = Some (WAIT_TIMEOUT, m)"
    using assms(2) by (subst timed_wait.simps) simp
  with assms(1) show ?thesis by (simp add: wait_phase_def)
qed

lemma wait_phase_fields:
  assumes "wait_phase cur clock m target = Some (Returned (res, m1))"
  shows "count m1 = count m \<and> thread_id m1 = thread_id m \<and> type m1 = type m"
proof (cases target)
  case None
  with assms show ?thesis
    by (auto simp: wait_phase_def split: if_splits option.splits)
next
  case (Some t)
  show ?thesis
  proof (cases "target_passed t")
    case True
    with Some assms show ?thesis
      by (auto simp: wait_phase_def split: if_splits prod.splits)
  next
    case False
    with Some assms have "timed_wait cur clock t 0 WAIT_TIMEOUT m = Some (res, m1)"
      by (auto simp: wait_phase_def)
    from timed_wait_fields [OF this] show ?thesis by simp
  qed
qed

subsection \<open>Every call has an outcome\<close>

text \<open>
  Only the timed wait can go on for ever, and it does not when some reading of the clock is not
  before the target: then \<^verbatim>\<open>mtx_do_lock\<close> has an outcome. So \<^verbatim>\<open>_Mtx_lock\<close> and
  \<^verbatim>\<open>_Mtx_trylock\<close> always have one, and \<^verbatim>\<open>_Mtx_timedlock\<close> has one on every clock that
  reaches the target.
\<close>

lemma wait_phase_returns:
  assumes "\<And>t. target = Some t \<Longrightarrow> \<not> target_passed t \<Longrightarrow> \<exists>k. \<not> not_expired (clock k) t"
  shows "\<exists>out. wait_phase cur clock m target = Some out"
proof (cases target)
  case None
  then show ?thesis by (simp add: wait_phase_def split: option.split)
next
  case (Some t)
  show ?thesis
  proof (cases "target_passed t")
    case True
    with Some show ?thesis by (simp add: wait_phase_def split_def)
  next
    case False
    with Some assms obtain k where "\<not> not_expired (clock (0 + k)) t" by auto
    then have "\<exists>y. timed_wait cur clock t 0 WAIT_TIMEOUT m = Some y"
      by (rule timed_wait_returns)
    then show ?thesis using Some False by (auto simp: wait_phase_def)
  qed
qed

lemma do_lock_returns:
  assumes "\<And>t. target = Some t \<Longrightarrow> \<not> target_passed t \<Longrightarrow> \<exists>k. \<not> not_expired (clock k) t"
  shows "\<exists>out. mtx_do_lock cur clock m target = Some out"
  using wait_phase_returns [where cur = cur and m = m, OF assms]
  by (auto simp: mtx_do_lock_def split: option.split)

lemma lock_returns: "\<exists>out. Mtx_lock cur clock m = Some out"
  unfolding Mtx_lock_def by (rule do_lock_returns) simp

lemma trylock_returns: "\<exists>out. Mtx_trylock chk cur clock m = Some out"
proof -
  have "\<exists>out. mtx_do_lock cur clock m (Some \<lparr>tv_sec = 0, tv_nsec = 0\<rparr>) = Some out"
    by (rule do_lock_returns) (simp add: target_passed_def word_sle_eq)
  then show ?thesis by (auto simp: Mtx_trylock_def split: option.split)
qed

lemma timedlock_returns:
  assumes "\<not> not_expired (clock k) t"
  shows "\<exists>out. Mtx_timedlock chk cur clock m (Some t) = Some out"
proof -
  have "\<exists>out. mtx_do_lock cur clock m (Some t) = Some out"
    by (rule do_lock_returns) (use assms in auto)
  then show ?thesis by (auto simp: Mtx_timedlock_def split: option.split)
qed

subsection \<open>The owner of a non-recursive mutex on the general path\<close>

lemma do_lock_owner_collision:
  assumes "type m AND NOT Mtx_recursive \<noteq> Mtx_plain"
    and "type m AND Mtx_recursive \<noteq> Mtx_recursive"
    and "thread_id m = cur"
    and "1 <=s count m"
    and "count m <s 0x7FFFFFFF"
  shows "mtx_do_lock cur clock m target = Some (Returned (result_of target WAIT_TIMEOUT, m))"
proof -
  have over: "1 <s count m + 1"
    using assms(4,5) by (rule sless_inc)
  have coll: "check_count cur WAIT_OBJECT_0 m = (WAIT_TIMEOUT, m)"
    using assms(2) over by (rule check_count_collision)
  from wait_phase_owner [OF assms(3), of clock target] show ?thesis
    using assms(1) coll by (auto simp: mtx_do_lock_def check_count_timeout)
qed

text \<open>
  Claim C1. The general path of \<^verbatim>\<open>mtx_do_lock\<close> is its \<^verbatim>\<open>else\<close> branch, taken when the type
  without the recursive flag is not \<^verbatim>\<open>_Mtx_plain\<close>. On this path, for a mutex without the
  recursive flag that the calling thread owns with a depth of at least 1, the call returns
  \<^verbatim>\<open>_Thrd_busy\<close> or \<^verbatim>\<open>_Thrd_timedout\<close>, never \<^verbatim>\<open>_Thrd_success\<close>, and the mutex is as
  before the call: same depth, same owner, no call on the critical section. This holds for
  every target (none, zero or passed, or a later instant) and every clock. The depth is below
  the largest \<^verbatim>\<open>int\<close>, so that \<^verbatim>\<open>++mtx->count\<close> does not overflow.
\<close>

theorem general_path_owner_not_granted:
  assumes "type m AND NOT Mtx_recursive \<noteq> Mtx_plain"
    and "type m AND Mtx_recursive \<noteq> Mtx_recursive"
    and "thread_id m = cur"
    and "1 <=s count m"
    and "count m <s 0x7FFFFFFF"
  shows "mtx_do_lock cur clock m target = Some (Returned (Thrd_busy, m))
       \<or> mtx_do_lock cur clock m target = Some (Returned (Thrd_timedout, m))"
  using do_lock_owner_collision [OF assms, of clock target]
  by (simp add: result_of_timeout split: option.split)

text \<open>
  A mutex of type \<^verbatim>\<open>_Mtx_try\<close> owned by thread 7 with depth 1: the try-lock target of zero
  seconds gives \<^verbatim>\<open>_Thrd_busy\<close>.
\<close>

theorem general_path_owner_not_granted_witness:
  "type \<lparr>type = Mtx_try, cs = \<lparr>holder = Some 7, calls = [Cs_try_lock True]\<rparr>,
           thread_id = 7, count = 1\<rparr> AND NOT Mtx_recursive \<noteq> Mtx_plain
   \<and> mtx_do_lock 7 (ticking 100)
        \<lparr>type = Mtx_try, cs = \<lparr>holder = Some 7, calls = [Cs_try_lock True]\<rparr>,
           thread_id = 7, count = 1\<rparr>
        (Some \<lparr>tv_sec = 0, tv_nsec = 0\<rparr>)
      = Some (Returned (Thrd_busy,
          \<lparr>type = Mtx_try, cs = \<lparr>holder = Some 7, calls = [Cs_try_lock True]\<rparr>,
             thread_id = 7, count = 1\<rparr>))"
proof -
  let ?m = "\<lparr>type = Mtx_try, cs = \<lparr>holder = Some 7, calls = [Cs_try_lock True]\<rparr>,
              thread_id = 7, count = 1 :: 32 word\<rparr>"
  let ?zero = "Some \<lparr>tv_sec = 0, tv_nsec = 0\<rparr>"
  have h1: "type ?m AND NOT Mtx_recursive \<noteq> Mtx_plain" by (simp add: header_defs)
  have h2: "type ?m AND Mtx_recursive \<noteq> Mtx_recursive" by (simp add: header_defs)
  have h3: "thread_id ?m = 7" by simp
  have h4: "1 <=s count ?m" by (simp add: word_sle_eq)
  have h5: "count ?m <s 0x7FFFFFFF" by (simp add: word_sless_alt)
  from general_path_owner_not_granted [OF h1 h2 h3 h4 h5, of "ticking 100" ?zero]
  have "mtx_do_lock 7 (ticking 100) ?m ?zero = Some (Returned (Thrd_busy, ?m))
     \<or> mtx_do_lock 7 (ticking 100) ?m ?zero = Some (Returned (Thrd_timedout, ?m))" .
  moreover have "mtx_do_lock 7 (ticking 100) ?m ?zero \<noteq> Some (Returned (Thrd_timedout, ?m))"
    by (simp add: lock_defs header_defs)
  ultimately show ?thesis using h1 by simp
qed

text \<open>
  The same through the interface: with the flags that \<^verbatim>\<open>_Mtx_trylock\<close> and
  \<^verbatim>\<open>_Mtx_timedlock\<close> assert, the owner of a non-recursive mutex gets \<^verbatim>\<open>_Thrd_busy\<close> from the
  first and \<^verbatim>\<open>_Thrd_timedout\<close> from the second.
\<close>

lemma trylock_owner_busy:
  assumes "type m AND (Mtx_try OR Mtx_timed) \<noteq> 0"
    and "type m AND Mtx_recursive \<noteq> Mtx_recursive"
    and "thread_id m = cur"
    and "1 <=s count m"
    and "count m <s 0x7FFFFFFF"
  shows "Mtx_trylock chk cur clock m = Some (Returned (Thrd_busy, m))"
  using assms(1) do_lock_owner_collision [OF try_timed_flag_general [OF assms(1)] assms(2-5)]
  by (simp add: Mtx_trylock_def THREAD_ASSERT_def result_of_timeout)

lemma timedlock_owner_timedout:
  assumes "type m AND Mtx_timed \<noteq> 0"
    and "type m AND Mtx_recursive \<noteq> Mtx_recursive"
    and "thread_id m = cur"
    and "1 <=s count m"
    and "count m <s 0x7FFFFFFF"
  shows "Mtx_timedlock chk cur clock m xt = Some (Returned (Thrd_timedout, m))"
  using assms(1) do_lock_owner_collision [OF timed_flag_general [OF assms(1)] assms(2-5)]
  by (simp add: Mtx_timedlock_def THREAD_ASSERT_def result_of_timeout split: option.split)

subsection \<open>A timed lock whose deadline has passed\<close>

text \<open>
  Claim C2, as the code has it. For a mutex with the timed flag whose critical section is held
  and whose owner is not the calling thread, \<^verbatim>\<open>_Mtx_timedlock\<close> with a target that is zero or
  negative, or that the first reading of the clock has reached, returns \<^verbatim>\<open>_Thrd_timedout\<close>,
  in checked and unchecked builds: \<^verbatim>\<open>mtx_do_lock\<close> returns \<^verbatim>\<open>_Thrd_busy\<close> only for the
  target of exactly zero, and \<^verbatim>\<open>_Mtx_timedlock\<close> turns that into \<^verbatim>\<open>_Thrd_timedout\<close>. Owner,
  depth and type are unchanged and the critical section has the same holder.
\<close>

theorem timedlock_passed_deadline_timedout:
  assumes "type m AND Mtx_timed \<noteq> 0"
    and "thread_id m \<noteq> cur"
    and "holder (cs m) \<noteq> None"
    and "target_passed t \<or> \<not> not_expired (clock 0) t"
  shows "\<exists>c. Mtx_timedlock chk cur clock m (Some t) = Some (Returned (Thrd_timedout, m\<lparr>cs := c\<rparr>))
            \<and> holder c = holder (cs m)"
proof (cases "target_passed t")
  case True
  let ?c = "(cs m)\<lparr>calls := calls (cs m) @ [Cs_try_lock False]\<rparr>"
  have "mtx_do_lock cur clock m (Some t) =
          Some (Returned (result_of (Some t) WAIT_TIMEOUT, m\<lparr>cs := ?c\<rparr>))"
    using timed_flag_general [OF assms(1)] wait_phase_passed_held [OF assms(2,3) True]
    by (simp add: mtx_do_lock_def check_count_timeout)
  then have "Mtx_timedlock chk cur clock m (Some t) =
               Some (Returned (Thrd_timedout, m\<lparr>cs := ?c\<rparr>))"
    using assms(1) by (simp add: Mtx_timedlock_def THREAD_ASSERT_def result_of_timeout)
  then show ?thesis by (intro exI [of _ ?c]) simp
next
  case False
  with assms(4) have "\<not> not_expired (clock 0) t" by simp
  with False have "mtx_do_lock cur clock m (Some t) = Some (Returned (Thrd_timedout, m))"
    using timed_flag_general [OF assms(1)]
    by (simp add: mtx_do_lock_def wait_phase_expired check_count_timeout result_of_not_zero)
  then have "Mtx_timedlock chk cur clock m (Some t) =
               Some (Returned (Thrd_timedout, m\<lparr>cs := cs m\<rparr>))"
    using assms(1) by (simp add: Mtx_timedlock_def THREAD_ASSERT_def)
  then show ?thesis by (intro exI [of _ "cs m"]) simp
qed

text \<open>Thread 9, a timed mutex held by thread 7, a negative target.\<close>

theorem timedlock_passed_deadline_timedout_witness:
  "type \<lparr>type = Mtx_timed, cs = \<lparr>holder = Some 7, calls = [Cs_try_lock True]\<rparr>,
           thread_id = 7, count = 1\<rparr> AND Mtx_timed \<noteq> 0
   \<and> target_passed \<lparr>tv_sec = - 5, tv_nsec = 0\<rparr>
   \<and> Mtx_timedlock True 9 (ticking 100)
        \<lparr>type = Mtx_timed, cs = \<lparr>holder = Some 7, calls = [Cs_try_lock True]\<rparr>,
           thread_id = 7, count = 1\<rparr>
        (Some \<lparr>tv_sec = - 5, tv_nsec = 0\<rparr>)
      = Some (Returned (Thrd_timedout,
          \<lparr>type = Mtx_timed,
             cs = \<lparr>holder = Some 7, calls = [Cs_try_lock True, Cs_try_lock False]\<rparr>,
             thread_id = 7, count = 1\<rparr>))"
proof -
  let ?m = "\<lparr>type = Mtx_timed, cs = \<lparr>holder = Some 7, calls = [Cs_try_lock True]\<rparr>,
              thread_id = 7, count = 1 :: 32 word\<rparr>"
  let ?t = "\<lparr>tv_sec = - 5, tv_nsec = 0\<rparr>"
  have h1: "type ?m AND Mtx_timed \<noteq> 0" by (simp add: header_defs)
  have h2: "thread_id ?m \<noteq> 9" by simp
  have h3: "holder (cs ?m) \<noteq> None" by simp
  have h4: "target_passed ?t" by (simp add: target_passed_def word_sless_alt)
  then have h5: "target_passed ?t \<or> \<not> not_expired (ticking 100 0) ?t" by simp
  from timedlock_passed_deadline_timedout
         [where m = ?m and cur = 9 and t = ?t and clock = "ticking 100" and chk = True,
          OF h1 h2 h3 h5]
       h1 h4
  show ?thesis
    by (simp add: lock_defs header_defs)
qed

text \<open>
  The claim as the spec has it, Busy for a deadline that is zero or in the past, fails: thread 9
  asks for a timed mutex held by thread 7, with the target of zero and with a target of 50 seconds
  on a clock that reads 100 seconds, and gets \<^verbatim>\<open>_Thrd_timedout\<close> both times.
\<close>

theorem timedlock_passed_deadline_busy_counterexample:
  "Mtx_timedlock True 9 (ticking 100)
     \<lparr>type = Mtx_timed, cs = \<lparr>holder = Some 7, calls = [Cs_try_lock True]\<rparr>,
        thread_id = 7, count = 1\<rparr>
     (Some \<lparr>tv_sec = 0, tv_nsec = 0\<rparr>)
   = Some (Returned (Thrd_timedout,
       \<lparr>type = Mtx_timed, cs = \<lparr>holder = Some 7, calls = [Cs_try_lock True, Cs_try_lock False]\<rparr>,
          thread_id = 7, count = 1\<rparr>))
   \<and> Mtx_timedlock True 9 (ticking 100)
     \<lparr>type = Mtx_timed, cs = \<lparr>holder = Some 7, calls = [Cs_try_lock True]\<rparr>,
        thread_id = 7, count = 1\<rparr>
     (Some \<lparr>tv_sec = 50, tv_nsec = 0\<rparr>)
   = Some (Returned (Thrd_timedout,
       \<lparr>type = Mtx_timed, cs = \<lparr>holder = Some 7, calls = [Cs_try_lock True]\<rparr>,
          thread_id = 7, count = 1\<rparr>))"
  by (simp add: lock_defs header_defs timed_wait.simps)

subsection \<open>A lock without deadline\<close>

text \<open>
  Claim C3, as the code has it. \<^verbatim>\<open>_Mtx_lock\<close> never returns \<^verbatim>\<open>_Thrd_timedout\<close> or
  \<^verbatim>\<open>_Thrd_error\<close>; what it does is decided by the state of the mutex, in three cases that
  exclude each other and leave no other. When the critical section is held and the calling
  thread is not the owner of the mutex, the thread waits in \<open>lock\<close>. Otherwise, on the general
  path, for a mutex without the recursive flag whose incremented depth is above 1, the call
  returns \<^verbatim>\<open>_Thrd_busy\<close> with depth and owner as before. Otherwise again it returns
  \<^verbatim>\<open>_Thrd_success\<close> with the depth incremented. In both returns the type is unchanged, and
  the critical section is untouched for the owner and acquired by one \<open>lock\<close> for another
  thread.
\<close>

theorem lock_without_deadline:
  "(thread_id m \<noteq> cur \<and> holder (cs m) \<noteq> None \<longrightarrow> Mtx_lock cur clock m = Some Blocked)
   \<and> ((thread_id m = cur \<or> holder (cs m) = None)
        \<and> (type m AND NOT Mtx_recursive \<noteq> Mtx_plain
             \<and> type m AND Mtx_recursive \<noteq> Mtx_recursive \<and> 1 <s count m + 1) \<longrightarrow>
        (\<exists>m'. Mtx_lock cur clock m = Some (Returned (Thrd_busy, m'))
           \<and> count m' = count m \<and> thread_id m' = thread_id m \<and> type m' = type m
           \<and> cs m' = (if thread_id m = cur then cs m
                       else \<lparr>holder = Some cur, calls = calls (cs m) @ [Cs_lock]\<rparr>)))
   \<and> ((thread_id m = cur \<or> holder (cs m) = None)
        \<and> \<not> (type m AND NOT Mtx_recursive \<noteq> Mtx_plain
             \<and> type m AND Mtx_recursive \<noteq> Mtx_recursive \<and> 1 <s count m + 1) \<longrightarrow>
        (\<exists>m'. Mtx_lock cur clock m = Some (Returned (Thrd_success, m'))
           \<and> count m' = count m + 1 \<and> type m' = type m
           \<and> cs m' = (if thread_id m = cur then cs m
                       else \<lparr>holder = Some cur, calls = calls (cs m) @ [Cs_lock]\<rparr>)))"
proof -
  have blocked: "thread_id m \<noteq> cur \<and> holder (cs m) \<noteq> None \<longrightarrow> Mtx_lock cur clock m = Some Blocked"
    by (simp add: Mtx_lock_def mtx_do_lock_def wait_phase_def cs_lock_def)
  have busy: "(thread_id m = cur \<or> holder (cs m) = None)
        \<and> (type m AND NOT Mtx_recursive \<noteq> Mtx_plain
             \<and> type m AND Mtx_recursive \<noteq> Mtx_recursive \<and> 1 <s count m + 1) \<longrightarrow>
        (\<exists>m'. Mtx_lock cur clock m = Some (Returned (Thrd_busy, m'))
           \<and> count m' = count m \<and> thread_id m' = thread_id m \<and> type m' = type m
           \<and> cs m' = (if thread_id m = cur then cs m
                       else \<lparr>holder = Some cur, calls = calls (cs m) @ [Cs_lock]\<rparr>))"
    by (auto simp: Mtx_lock_def mtx_do_lock_def wait_phase_def check_count_def result_of_def
        cs_lock_def Let_def header_defs)
  have success: "(thread_id m = cur \<or> holder (cs m) = None)
        \<and> \<not> (type m AND NOT Mtx_recursive \<noteq> Mtx_plain
             \<and> type m AND Mtx_recursive \<noteq> Mtx_recursive \<and> 1 <s count m + 1) \<longrightarrow>
        (\<exists>m'. Mtx_lock cur clock m = Some (Returned (Thrd_success, m'))
           \<and> count m' = count m + 1 \<and> type m' = type m
           \<and> cs m' = (if thread_id m = cur then cs m
                       else \<lparr>holder = Some cur, calls = calls (cs m) @ [Cs_lock]\<rparr>))"
    by (auto simp: Mtx_lock_def mtx_do_lock_def wait_phase_def check_count_def result_of_def
        cs_lock_def Let_def header_defs)
  from blocked busy success show ?thesis by blast
qed

text \<open>
  Thread 7 locks a free mutex of type \<^verbatim>\<open>_Mtx_try\<close>; thread 5 locks again the mutex of type
  \<^verbatim>\<open>_Mtx_timed\<close> that it owns; thread 9 locks a mutex that thread 7 holds.
\<close>

theorem lock_without_deadline_witness:
  "Mtx_lock 7 (ticking 100)
     \<lparr>type = Mtx_try, cs = \<lparr>holder = None, calls = []\<rparr>, thread_id = - 1, count = 0\<rparr>
   = Some (Returned (Thrd_success,
       \<lparr>type = Mtx_try, cs = \<lparr>holder = Some 7, calls = [Cs_lock]\<rparr>, thread_id = 7, count = 1\<rparr>))
   \<and> Mtx_lock 5 (ticking 100)
     \<lparr>type = Mtx_timed, cs = \<lparr>holder = Some 5, calls = [Cs_lock]\<rparr>, thread_id = 5, count = 1\<rparr>
   = Some (Returned (Thrd_busy,
       \<lparr>type = Mtx_timed, cs = \<lparr>holder = Some 5, calls = [Cs_lock]\<rparr>, thread_id = 5, count = 1\<rparr>))
   \<and> Mtx_lock 9 (ticking 100)
     \<lparr>type = Mtx_try, cs = \<lparr>holder = Some 7, calls = [Cs_lock]\<rparr>, thread_id = 7, count = 1\<rparr>
   = Some Blocked"
proof -
  let ?free = "\<lparr>type = Mtx_try, cs = \<lparr>holder = None, calls = []\<rparr>,
                 thread_id = - 1, count = 0 :: 32 word\<rparr>"
  let ?own = "\<lparr>type = Mtx_timed, cs = \<lparr>holder = Some 5, calls = [Cs_lock]\<rparr>,
                thread_id = 5, count = 1 :: 32 word\<rparr>"
  let ?held = "\<lparr>type = Mtx_try, cs = \<lparr>holder = Some 7, calls = [Cs_lock]\<rparr>,
                 thread_id = 7, count = 1 :: 32 word\<rparr>"
  have a: "Mtx_lock 7 (ticking 100) ?free = Some (Returned (Thrd_success,
       \<lparr>type = Mtx_try, cs = \<lparr>holder = Some 7, calls = [Cs_lock]\<rparr>, thread_id = 7, count = 1\<rparr>))"
    using lock_without_deadline [of ?free 7 "ticking 100"]
    by (simp add: lock_defs header_defs)
  have busy_cond: "type ?own AND NOT Mtx_recursive \<noteq> Mtx_plain
      \<and> type ?own AND Mtx_recursive \<noteq> Mtx_recursive \<and> 1 <s count ?own + 1"
    by (simp add: header_defs word_sless_alt)
  with lock_without_deadline [of ?own 5 "ticking 100"]
  obtain m' where r: "Mtx_lock 5 (ticking 100) ?own = Some (Returned (Thrd_busy, m'))"
    and f: "count m' = count ?own" "thread_id m' = thread_id ?own" "type m' = type ?own"
      "cs m' = cs ?own"
    by auto
  from f have "m' = ?own" by (cases m') simp
  with r have b: "Mtx_lock 5 (ticking 100) ?own = Some (Returned (Thrd_busy, ?own))" by simp
  have c: "Mtx_lock 9 (ticking 100) ?held = Some Blocked"
    using lock_without_deadline [of ?held 9 "ticking 100"] by simp
  from a b c show ?thesis by simp
qed

text \<open>
  The claim as the spec has it, never Busy without a deadline, fails: thread 7 owns a mutex of
  type \<^verbatim>\<open>_Mtx_try\<close> with depth 1 and locks it again.
\<close>

theorem lock_without_deadline_busy_counterexample:
  "Mtx_lock 7 (ticking 100)
     \<lparr>type = Mtx_try, cs = \<lparr>holder = Some 7, calls = [Cs_lock]\<rparr>, thread_id = 7, count = 1\<rparr>
   = Some (Returned (Thrd_busy,
       \<lparr>type = Mtx_try, cs = \<lparr>holder = Some 7, calls = [Cs_lock]\<rparr>, thread_id = 7, count = 1\<rparr>))"
  by (simp add: lock_defs header_defs)

subsection \<open>Unlock\<close>

text \<open>
  Claim C4. For a mutex with a depth of at least 1 that the calling thread owns, in checked and
  unchecked builds, \<^verbatim>\<open>_Mtx_unlock\<close> returns \<^verbatim>\<open>_Thrd_success\<close> and the depth, as a signed
  integer, is one less. When the new depth is 0 the owner is the value -1 that stands for no owner
  and the critical section has been released by one \<open>unlock\<close>; otherwise the owner and the
  critical section are as before. The type is unchanged.
\<close>

theorem unlock_by_owner:
  assumes "1 <=s count m" and "thread_id m = cur"
  shows "\<exists>m'. Mtx_unlock chk cur m = Returned (Thrd_success, m')
          \<and> sint (count m') = sint (count m) - 1
          \<and> type m' = type m
          \<and> (if count m' = 0 then thread_id m' = - 1 \<and> cs m' = cs_unlock (cs m)
              else thread_id m' = thread_id m \<and> cs m' = cs m)"
  using assms sint_dec [OF assms(1)]
  by (simp add: Mtx_unlock_def THREAD_ASSERT_def Let_def)

theorem unlock_by_owner_witness:
  "1 <=s count \<lparr>type = Mtx_try, cs = \<lparr>holder = Some 7, calls = [Cs_lock]\<rparr>,
                  thread_id = 7, count = 1\<rparr>
   \<and> Mtx_unlock True 7
        \<lparr>type = Mtx_try, cs = \<lparr>holder = Some 7, calls = [Cs_lock]\<rparr>, thread_id = 7, count = 1\<rparr>
      = Returned (Thrd_success,
          \<lparr>type = Mtx_try, cs = \<lparr>holder = None, calls = [Cs_lock, Cs_unlock]\<rparr>,
             thread_id = - 1, count = 0\<rparr>)"
proof -
  let ?m = "\<lparr>type = Mtx_try, cs = \<lparr>holder = Some 7, calls = [Cs_lock]\<rparr>,
              thread_id = 7, count = 1 :: 32 word\<rparr>"
  have h1: "1 <=s count ?m" by (simp add: word_sle_eq)
  have h2: "thread_id ?m = 7" by simp
  from unlock_by_owner [OF h1 h2, of True] h1 show ?thesis
    by (simp add: Mtx_unlock_def THREAD_ASSERT_def Let_def cs_unlock_def)
qed

text \<open>
  Claim C8, as the code has it. The assertion of \<^verbatim>\<open>_Mtx_unlock\<close> exists only in builds with
  \<^verbatim>\<open>_THREAD_CHECK\<close> or \<^verbatim>\<open>_DEBUG\<close>. In such a build, an unlock by a thread that is not the
  owner, or of a mutex whose depth is below 1, aborts with the message
  \<^verbatim>\<open>unlock of unowned mutex\<close>. In the other builds the same call goes on: it decrements the
  depth and returns \<^verbatim>\<open>_Thrd_success\<close>.
\<close>

theorem unlock_unowned_aborts_when_checked:
  assumes "thread_id m \<noteq> cur \<or> \<not> 1 <=s count m"
  shows "Mtx_unlock True cur m = Aborted ''unlock of unowned mutex''
       \<and> (\<exists>m'. Mtx_unlock False cur m = Returned (Thrd_success, m') \<and> count m' = count m - 1)"
  using assms by (auto simp: Mtx_unlock_def THREAD_ASSERT_def Let_def)

theorem unlock_unowned_aborts_when_checked_witness:
  "\<not> 1 <=s count \<lparr>type = Mtx_try, cs = \<lparr>holder = None, calls = []\<rparr>, thread_id = - 1, count = 0\<rparr>
   \<and> Mtx_unlock True 7
       \<lparr>type = Mtx_try, cs = \<lparr>holder = None, calls = []\<rparr>, thread_id = - 1, count = 0\<rparr>
       = Aborted ''unlock of unowned mutex''"
proof -
  let ?m = "\<lparr>type = Mtx_try, cs = \<lparr>holder = None, calls = []\<rparr>,
              thread_id = - 1, count = 0 :: 32 word\<rparr>"
  have h: "\<not> 1 <=s count ?m" by (simp add: word_sle_eq)
  then have "thread_id ?m \<noteq> 7 \<or> \<not> 1 <=s count ?m" by simp
  from unlock_unowned_aborts_when_checked [OF this] h show ?thesis by simp
qed

text \<open>
  The claim as the spec has it, an abort for every such call, fails in a build without the
  checks: the unlock of a mutex of depth 0 returns \<^verbatim>\<open>_Thrd_success\<close> and leaves the depth -1,
  and thread 9 unlocks the mutex that thread 7 owns.
\<close>

theorem unlock_unowned_counterexample:
  "Mtx_unlock False 7
     \<lparr>type = Mtx_try, cs = \<lparr>holder = None, calls = []\<rparr>, thread_id = - 1, count = 0\<rparr>
     = Returned (Thrd_success,
         \<lparr>type = Mtx_try, cs = \<lparr>holder = None, calls = []\<rparr>, thread_id = - 1, count = - 1\<rparr>)
   \<and> Mtx_unlock False 9
     \<lparr>type = Mtx_try, cs = \<lparr>holder = Some 7, calls = [Cs_lock]\<rparr>, thread_id = 7, count = 1\<rparr>
     = Returned (Thrd_success,
         \<lparr>type = Mtx_try, cs = \<lparr>holder = None, calls = [Cs_lock, Cs_unlock]\<rparr>,
            thread_id = - 1, count = 0\<rparr>)"
  by (simp add: Mtx_unlock_def THREAD_ASSERT_def Let_def cs_unlock_def)

subsection \<open>The fast path\<close>

text \<open>
  Claim C5. On the fast path (the type without the recursive flag is \<^verbatim>\<open>_Mtx_plain\<close>),
  \<^verbatim>\<open>_Mtx_lock\<close> by the thread that is the owner returns \<^verbatim>\<open>_Thrd_success\<close>; the mutex
  after the call is the mutex before it with \<^verbatim>\<open>count\<close> incremented, so the critical section
  is the same and no call was made on it. Below the largest \<^verbatim>\<open>int\<close> the depth, as a signed
  integer, is one more.
\<close>

theorem fast_path_relock:
  assumes "type m AND NOT Mtx_recursive = Mtx_plain" and "thread_id m = cur"
  shows "Mtx_lock cur clock m = Some (Returned (Thrd_success, m\<lparr>count := count m + 1\<rparr>))
       \<and> cs (m\<lparr>count := count m + 1\<rparr>) = cs m
       \<and> (count m <s 0x7FFFFFFF \<longrightarrow>
            sint (count (m\<lparr>count := count m + 1\<rparr>)) = sint (count m) + 1)"
  using assms by (simp add: Mtx_lock_def mtx_do_lock_def sint_inc)

theorem fast_path_relock_witness:
  "type \<lparr>type = Mtx_plain, cs = \<lparr>holder = Some 7, calls = [Cs_lock]\<rparr>, thread_id = 7, count = 1\<rparr>
     AND NOT Mtx_recursive = Mtx_plain
   \<and> Mtx_lock 7 (ticking 100)
        \<lparr>type = Mtx_plain, cs = \<lparr>holder = Some 7, calls = [Cs_lock]\<rparr>, thread_id = 7, count = 1\<rparr>
      = Some (Returned (Thrd_success,
          \<lparr>type = Mtx_plain, cs = \<lparr>holder = Some 7, calls = [Cs_lock]\<rparr>,
             thread_id = 7, count = 2\<rparr>))"
proof -
  let ?m = "\<lparr>type = Mtx_plain, cs = \<lparr>holder = Some 7, calls = [Cs_lock]\<rparr>,
              thread_id = 7, count = 1 :: 32 word\<rparr>"
  have h1: "type ?m AND NOT Mtx_recursive = Mtx_plain" by (simp add: header_defs)
  have h2: "thread_id ?m = 7" by simp
  from fast_path_relock [OF h1 h2, of "ticking 100"] h1 show ?thesis by simp
qed

subsection \<open>Transfer of ownership\<close>

text \<open>
  Claim C6. For a mutex that the calling thread owns with a depth of at least 1,
  \<^verbatim>\<open>_Mtx_clear_owner\<close> followed by \<^verbatim>\<open>_Mtx_reset_owner\<close> gives back the mutex as it was, depth
  included, and \<^verbatim>\<open>_Mtx_current_owns\<close> then returns 1 (true).
\<close>

theorem disown_reclaim_round_trip:
  assumes "thread_id m = cur" and "1 <=s count m"
  shows "Mtx_reset_owner cur (Mtx_clear_owner m) = m
       \<and> Mtx_current_owns cur (Mtx_reset_owner cur (Mtx_clear_owner m)) = 1"
proof -
  have rt: "Mtx_reset_owner cur (Mtx_clear_owner m) = m"
    using assms(1) by (simp add: Mtx_reset_owner_def Mtx_clear_owner_def)
  have "count m \<noteq> 0" using assms(2) by (rule sle_one_nonzero)
  with assms(1) have "Mtx_current_owns cur m = 1" by (simp add: Mtx_current_owns_def)
  with rt show ?thesis by simp
qed

theorem disown_reclaim_round_trip_witness:
  "1 <=s count \<lparr>type = Mtx_try, cs = \<lparr>holder = Some 7, calls = [Cs_lock]\<rparr>,
                  thread_id = 7, count = 1\<rparr>
   \<and> Mtx_clear_owner
       \<lparr>type = Mtx_try, cs = \<lparr>holder = Some 7, calls = [Cs_lock]\<rparr>, thread_id = 7, count = 1\<rparr>
       = \<lparr>type = Mtx_try, cs = \<lparr>holder = Some 7, calls = [Cs_lock]\<rparr>, thread_id = - 1, count = 0\<rparr>
   \<and> Mtx_reset_owner 7
        (Mtx_clear_owner
           \<lparr>type = Mtx_try, cs = \<lparr>holder = Some 7, calls = [Cs_lock]\<rparr>, thread_id = 7, count = 1\<rparr>)
       = \<lparr>type = Mtx_try, cs = \<lparr>holder = Some 7, calls = [Cs_lock]\<rparr>, thread_id = 7, count = 1\<rparr>
   \<and> Mtx_current_owns 7 (Mtx_reset_owner 7
        (Mtx_clear_owner
           \<lparr>type = Mtx_try, cs = \<lparr>holder = Some 7, calls = [Cs_lock]\<rparr>, thread_id = 7, count = 1\<rparr>))
       = 1"
proof -
  let ?m = "\<lparr>type = Mtx_try, cs = \<lparr>holder = Some 7, calls = [Cs_lock]\<rparr>,
              thread_id = 7, count = 1 :: 32 word\<rparr>"
  have h1: "thread_id ?m = 7" by simp
  have h2: "1 <=s count ?m" by (simp add: word_sle_eq)
  from disown_reclaim_round_trip [OF h1 h2] h2 show ?thesis
    by (simp add: Mtx_clear_owner_def Mtx_reset_owner_def Mtx_current_owns_def)
qed

subsection \<open>The depth of a non-recursive mutex\<close>

lemma do_lock_depth:
  assumes "type m AND NOT Mtx_recursive \<noteq> Mtx_plain"
    and "type m AND Mtx_recursive \<noteq> Mtx_recursive"
    and "count m = 0 \<or> count m = 1"
    and "mtx_do_lock cur clock m target = Some (Returned (r, m'))"
  shows "(count m' = 0 \<or> count m' = 1) \<and> type m' = type m"
proof -
  from assms(1,4) obtain res m1
    where w: "wait_phase cur clock m target = Some (Returned (res, m1))"
      and m': "m' = snd (check_count cur res m1)"
    by (auto simp: mtx_do_lock_def map_outcome_eq_Returned split_def)
  from wait_phase_fields [OF w] assms(2,3)
  have "type m1 AND Mtx_recursive \<noteq> Mtx_recursive" and "count m1 = 0 \<or> count m1 = 1"
    and "type m1 = type m"
    by simp_all
  with check_count_depth [of m1 cur res] m' show ?thesis by simp
qed

lemma trylock_Returned:
  assumes "Mtx_trylock chk cur clock m = Some (Returned (r, m'))"
  shows "mtx_do_lock cur clock m (Some \<lparr>tv_sec = 0, tv_nsec = 0\<rparr>) = Some (Returned (r, m'))"
  using assms by (simp add: Mtx_trylock_def split: option.splits)

lemma timedlock_Returned:
  assumes "Mtx_timedlock chk cur clock m xt = Some (Returned (r, m'))"
  shows "\<exists>r0. mtx_do_lock cur clock m xt = Some (Returned (r0, m'))"
  using assms
  by (auto simp: Mtx_timedlock_def map_outcome_eq_Returned split: option.splits)

text \<open>
  Claim C7, as the code has it. Take a mutex without the recursive flag whose mode is on the
  general path (the type without the recursive flag is not \<^verbatim>\<open>_Mtx_plain\<close>: it has the try or
  the timed flag) and whose depth is 0 or 1. Then the depth is 0 or 1 after \<^verbatim>\<open>_Mtx_lock\<close>,
  \<^verbatim>\<open>_Mtx_trylock\<close> and \<^verbatim>\<open>_Mtx_timedlock\<close> whenever they return; it is 0 after
  \<^verbatim>\<open>_Mtx_unlock\<close> and after \<^verbatim>\<open>_Mtx_clear_owner\<close> when it was 1; and it is 1 after
  \<^verbatim>\<open>_Mtx_reset_owner\<close> when it was 0. The type never changes, so the mutex stays such a mutex.
\<close>

theorem general_path_depth_invariant:
  assumes "type m AND NOT Mtx_recursive \<noteq> Mtx_plain"
    and "type m AND Mtx_recursive \<noteq> Mtx_recursive"
    and "count m = 0 \<or> count m = 1"
  shows "(\<forall>r m'. Mtx_lock cur clock m = Some (Returned (r, m')) \<longrightarrow>
            (count m' = 0 \<or> count m' = 1) \<and> type m' = type m)
       \<and> (\<forall>r m'. Mtx_trylock chk cur clock m = Some (Returned (r, m')) \<longrightarrow>
            (count m' = 0 \<or> count m' = 1) \<and> type m' = type m)
       \<and> (\<forall>r m'. Mtx_timedlock chk cur clock m xt = Some (Returned (r, m')) \<longrightarrow>
            (count m' = 0 \<or> count m' = 1) \<and> type m' = type m)
       \<and> (count m = 1 \<longrightarrow>
            (\<forall>r m'. Mtx_unlock chk cur m = Returned (r, m') \<longrightarrow>
               count m' = 0 \<and> type m' = type m))
       \<and> (count m = 1 \<longrightarrow>
            count (Mtx_clear_owner m) = 0 \<and> type (Mtx_clear_owner m) = type m)
       \<and> (count m = 0 \<longrightarrow>
            count (Mtx_reset_owner cur m) = 1 \<and> type (Mtx_reset_owner cur m) = type m)"
proof -
  note dl = do_lock_depth [OF assms]
  have l1: "\<forall>r m'. Mtx_lock cur clock m = Some (Returned (r, m')) \<longrightarrow>
      (count m' = 0 \<or> count m' = 1) \<and> type m' = type m"
    using dl by (simp add: Mtx_lock_def)
  have l2: "\<forall>r m'. Mtx_trylock chk cur clock m = Some (Returned (r, m')) \<longrightarrow>
      (count m' = 0 \<or> count m' = 1) \<and> type m' = type m"
    using dl trylock_Returned by blast
  have l3: "\<forall>r m'. Mtx_timedlock chk cur clock m xt = Some (Returned (r, m')) \<longrightarrow>
      (count m' = 0 \<or> count m' = 1) \<and> type m' = type m"
    using dl timedlock_Returned by blast
  have l4: "count m = 1 \<longrightarrow>
      (\<forall>r m'. Mtx_unlock chk cur m = Returned (r, m') \<longrightarrow> count m' = 0 \<and> type m' = type m)"
    by (auto simp: Mtx_unlock_def Let_def split: option.splits)
  have l5: "count m = 1 \<longrightarrow>
      count (Mtx_clear_owner m) = 0 \<and> type (Mtx_clear_owner m) = type m"
    by (simp add: Mtx_clear_owner_def)
  have l6: "count m = 0 \<longrightarrow>
      count (Mtx_reset_owner cur m) = 1 \<and> type (Mtx_reset_owner cur m) = type m"
    by (simp add: Mtx_reset_owner_def)
  from l1 l2 l3 l4 l5 l6 show ?thesis by blast
qed

text \<open>
  A mutex of type \<^verbatim>\<open>_Mtx_try\<close>: thread 7 locks it (depth 1), tries to lock it again (busy,
  depth 1) and unlocks it (depth 0).
\<close>

theorem general_path_depth_invariant_witness:
  "Mtx_lock 7 (ticking 100)
     \<lparr>type = Mtx_try, cs = \<lparr>holder = None, calls = []\<rparr>, thread_id = - 1, count = 0\<rparr>
   = Some (Returned (Thrd_success,
       \<lparr>type = Mtx_try, cs = \<lparr>holder = Some 7, calls = [Cs_lock]\<rparr>, thread_id = 7, count = 1\<rparr>))
   \<and> Mtx_trylock True 7 (ticking 100)
     \<lparr>type = Mtx_try, cs = \<lparr>holder = Some 7, calls = [Cs_lock]\<rparr>, thread_id = 7, count = 1\<rparr>
   = Some (Returned (Thrd_busy,
       \<lparr>type = Mtx_try, cs = \<lparr>holder = Some 7, calls = [Cs_lock]\<rparr>, thread_id = 7, count = 1\<rparr>))
   \<and> Mtx_unlock True 7
     \<lparr>type = Mtx_try, cs = \<lparr>holder = Some 7, calls = [Cs_lock]\<rparr>, thread_id = 7, count = 1\<rparr>
   = Returned (Thrd_success,
       \<lparr>type = Mtx_try, cs = \<lparr>holder = None, calls = [Cs_lock, Cs_unlock]\<rparr>,
          thread_id = - 1, count = 0\<rparr>)"
proof -
  let ?m0 = "\<lparr>type = Mtx_try, cs = \<lparr>holder = None, calls = []\<rparr>,
               thread_id = - 1, count = 0 :: 32 word\<rparr>"
  let ?m1 = "\<lparr>type = Mtx_try, cs = \<lparr>holder = Some 7, calls = [Cs_lock]\<rparr>,
               thread_id = 7, count = 1 :: 32 word\<rparr>"
  have g0: "type ?m0 AND NOT Mtx_recursive \<noteq> Mtx_plain" by (simp add: header_defs)
  have n0: "type ?m0 AND Mtx_recursive \<noteq> Mtx_recursive" by (simp add: header_defs)
  have d0: "count ?m0 = 0 \<or> count ?m0 = 1" by simp
  have g1: "type ?m1 AND NOT Mtx_recursive \<noteq> Mtx_plain" by (simp add: header_defs)
  have n1: "type ?m1 AND Mtx_recursive \<noteq> Mtx_recursive" by (simp add: header_defs)
  have d1: "count ?m1 = 0 \<or> count ?m1 = 1" by simp
  have a: "Mtx_lock 7 (ticking 100) ?m0 = Some (Returned (Thrd_success, ?m1))"
    using general_path_depth_invariant [OF g0 n0 d0, of 7 "ticking 100" True None]
    by (simp add: lock_defs header_defs)
  have b: "Mtx_trylock True 7 (ticking 100) ?m1 = Some (Returned (Thrd_busy, ?m1))"
    using general_path_depth_invariant [OF g1 n1 d1, of 7 "ticking 100" True None]
    by (simp add: lock_defs header_defs)
  have c: "Mtx_unlock True 7 ?m1 = Returned (Thrd_success,
       \<lparr>type = Mtx_try, cs = \<lparr>holder = None, calls = [Cs_lock, Cs_unlock]\<rparr>,
          thread_id = - 1, count = 0\<rparr>)"
    by (simp add: Mtx_unlock_def THREAD_ASSERT_def Let_def cs_unlock_def word_sle_eq)
  from a b c show ?thesis by simp
qed

text \<open>
  The claim as the spec has it, depth 0 or 1 after every operation on every non-recursive mutex,
  fails. On the fast path the owner of a mutex of type \<^verbatim>\<open>_Mtx_plain\<close> locks it again and the
  depth is 2; \<^verbatim>\<open>_Mtx_reset_owner\<close> at depth 1 gives depth 2; \<^verbatim>\<open>_Mtx_clear_owner\<close> at depth 0,
  and \<^verbatim>\<open>_Mtx_unlock\<close> at depth 0 in a build without the checks, give depth -1.
\<close>

theorem depth_invariant_counterexample:
  "Mtx_lock 7 (ticking 100)
     \<lparr>type = Mtx_plain, cs = \<lparr>holder = Some 7, calls = [Cs_lock]\<rparr>, thread_id = 7, count = 1\<rparr>
   = Some (Returned (Thrd_success,
       \<lparr>type = Mtx_plain, cs = \<lparr>holder = Some 7, calls = [Cs_lock]\<rparr>, thread_id = 7, count = 2\<rparr>))
   \<and> Mtx_reset_owner 7
     \<lparr>type = Mtx_try, cs = \<lparr>holder = Some 7, calls = [Cs_lock]\<rparr>, thread_id = 7, count = 1\<rparr>
   = \<lparr>type = Mtx_try, cs = \<lparr>holder = Some 7, calls = [Cs_lock]\<rparr>, thread_id = 7, count = 2\<rparr>
   \<and> Mtx_clear_owner
     \<lparr>type = Mtx_try, cs = \<lparr>holder = None, calls = []\<rparr>, thread_id = - 1, count = 0\<rparr>
   = \<lparr>type = Mtx_try, cs = \<lparr>holder = None, calls = []\<rparr>, thread_id = - 1, count = - 1\<rparr>
   \<and> Mtx_unlock False 7
     \<lparr>type = Mtx_try, cs = \<lparr>holder = None, calls = []\<rparr>, thread_id = - 1, count = 0\<rparr>
   = Returned (Thrd_success,
       \<lparr>type = Mtx_try, cs = \<lparr>holder = None, calls = []\<rparr>, thread_id = - 1, count = - 1\<rparr>)"
  by (simp add: Mtx_lock_def mtx_do_lock_def Mtx_reset_owner_def Mtx_clear_owner_def
      Mtx_unlock_def THREAD_ASSERT_def Let_def header_defs)

subsection \<open>Initialisation and destruction\<close>

text \<open>
  Claim C9. \<^verbatim>\<open>_Mtx_init\<close> returns \<^verbatim>\<open>_Thrd_nomem\<close> when \<^verbatim>\<open>_calloc_crt\<close> returns the null
  pointer and \<^verbatim>\<open>_Thrd_success\<close> otherwise, and nothing else. On failure the handle is null and
  the store is unchanged. On success the handle is the new block, which holds a mutex with the
  owner -1 that stands for no owner, depth 0, the requested type and a new critical section.
\<close>

theorem init_result:
  "fst (Mtx_init alloc h ty) = (if alloc = None then Thrd_nomem else Thrd_success)
   \<and> (alloc = None \<longrightarrow> Mtx_init alloc h ty = (Thrd_nomem, None, h))
   \<and> (\<forall>a. alloc = Some a \<longrightarrow>
         (\<exists>m. Mtx_init alloc h ty = (Thrd_success, Some a, h(a \<mapsto> m))
            \<and> thread_id m = - 1 \<and> count m = 0 \<and> type m = ty
            \<and> cs m = create_stl_critical_section))"
proof (cases alloc)
  case None
  then show ?thesis by (simp add: Mtx_init_def)
next
  case (Some a)
  let ?m = "Mtx_init_in_situ zeroed ty"
  have "Mtx_init alloc h ty = (Thrd_success, Some a, h(a \<mapsto> ?m))"
    using Some by (simp add: Mtx_init_def)
  moreover have "thread_id ?m = - 1 \<and> count ?m = 0 \<and> type ?m = ty
      \<and> cs ?m = create_stl_critical_section"
    by (simp add: Mtx_init_in_situ_def)
  ultimately show ?thesis using Some by auto
qed

theorem init_result_witness:
  "Mtx_init None Map.empty Mtx_try = (Thrd_nomem, None, Map.empty)
   \<and> Mtx_init (Some 3) Map.empty Mtx_try
      = (Thrd_success, Some 3,
         [3 \<mapsto> \<lparr>type = Mtx_try, cs = \<lparr>holder = None, calls = []\<rparr>, thread_id = - 1, count = 0\<rparr>])"
proof -
  from init_result [of None Map.empty Mtx_try]
  have a: "Mtx_init None Map.empty Mtx_try = (Thrd_nomem, None, Map.empty)" by simp
  from init_result [of "Some 3" Map.empty Mtx_try]
  obtain m where b: "Mtx_init (Some 3) Map.empty Mtx_try = (Thrd_success, Some 3, [3 \<mapsto> m])"
    and f: "thread_id m = - 1" "count m = 0" "type m = Mtx_try"
      "cs m = create_stl_critical_section"
    by auto
  from f have "m = \<lparr>type = Mtx_try, cs = \<lparr>holder = None, calls = []\<rparr>,
                      thread_id = - 1, count = 0\<rparr>"
    by (cases m) (simp add: create_stl_critical_section_def)
  with a b show ?thesis by simp
qed

text \<open>
  Claim C10. \<^verbatim>\<open>_Mtx_destroy\<close> of the null handle returns with the store as it was, whatever
  the store holds and in every build: nothing is read and nothing is freed. The destruction in
  situ and \<^verbatim>\<open>_free_crt\<close> run for a handle that is not null: for a live block the call frees
  it, or, in a checked build, aborts when the depth is not 0.
\<close>

theorem destroy_null:
  "Mtx_destroy chk h None = Returned h
   \<and> (\<forall>a m. h a = Some m \<longrightarrow>
        Mtx_destroy chk h (Some a) =
          (if chk \<and> count m \<noteq> 0 then Aborted ''mutex destroyed while busy''
           else Returned (h(a := None))))"
  by (simp add: Mtx_destroy_def Mtx_destroy_in_situ_def THREAD_ASSERT_def)

theorem destroy_null_witness:
  "Mtx_destroy True
     [3 \<mapsto> \<lparr>type = Mtx_try, cs = \<lparr>holder = None, calls = []\<rparr>, thread_id = - 1, count = 0\<rparr>]
     None
     = Returned
         [3 \<mapsto> \<lparr>type = Mtx_try, cs = \<lparr>holder = None, calls = []\<rparr>, thread_id = - 1, count = 0\<rparr>]
   \<and> Mtx_destroy True
     [3 \<mapsto> \<lparr>type = Mtx_try, cs = \<lparr>holder = None, calls = []\<rparr>, thread_id = - 1, count = 0\<rparr>]
     (Some 3)
     = Returned Map.empty"
  using destroy_null [of True
      "[3 \<mapsto> \<lparr>type = Mtx_try, cs = \<lparr>holder = None, calls = []\<rparr>, thread_id = - 1, count = 0\<rparr>]"]
  by simp

end
